theory Spec2Isabelle
  imports Complex_Main "HOL-Library.Sublist" "HOL-Library.Log_Nat"
begin

section \<open>Strings\<close>

text \<open>
  A JavaScript string is held as the \<^typ>\<open>string\<close> of its UTF-8 bytes. The program's
  literals contain Portuguese letters and pictographs; each code point that is not ASCII
  gets a named constant holding its encoding, and a literal is the concatenation of its
  ASCII runs and these constants.
\<close>

definition A_acute :: string where
  "A_acute = [CHR 0xC3, CHR 0x81]"

definition a_acute :: string where
  "a_acute = [CHR 0xC3, CHR 0xA1]"

definition a_tilde :: string where
  "a_tilde = [CHR 0xC3, CHR 0xA3]"

definition c_cedilla :: string where
  "c_cedilla = [CHR 0xC3, CHR 0xA7]"


definition e_circ :: string where
  "e_circ = [CHR 0xC3, CHR 0xAA]"


definition o_acute :: string where
  "o_acute = [CHR 0xC3, CHR 0xB3]"

definition o_tilde :: string where
  "o_tilde = [CHR 0xC3, CHR 0xB5]"

definition u_acute :: string where
  "u_acute = [CHR 0xC3, CHR 0xBA]"

definition check_mark :: string where
  "check_mark = [CHR 0xE2, CHR 0x9C, CHR 0x85]"

definition writing_hand :: string where
  "writing_hand = [CHR 0xE2, CHR 0x9C, CHR 0x8D]"

definition variation16 :: string where
  "variation16 = [CHR 0xEF, CHR 0xB8, CHR 0x8F]"

definition volcano :: string where
  "volcano = [CHR 0xF0, CHR 0x9F, CHR 0x8C, CHR 0x8B]"

definition globe :: string where
  "globe = [CHR 0xF0, CHR 0x9F, CHR 0x8C, CHR 0x8D]"

definition rain_cloud :: string where
  "rain_cloud = [CHR 0xF0, CHR 0x9F, CHR 0x8C, CHR 0xA7]"

definition tornado :: string where
  "tornado = [CHR 0xF0, CHR 0x9F, CHR 0x8C, CHR 0xAA]"

definition seedling :: string where
  "seedling = [CHR 0xF0, CHR 0x9F, CHR 0x8C, CHR 0xB1]"

definition derelict_house :: string where
  "derelict_house = [CHR 0xF0, CHR 0x9F, CHR 0x8F, CHR 0x9A]"

definition house :: string where
  "house = [CHR 0xF0, CHR 0x9F, CHR 0x8F, CHR 0xA0]"

definition pushpin :: string where
  "pushpin = [CHR 0xF0, CHR 0x9F, CHR 0x93, CHR 0x8D]"

definition world_map :: string where
  "world_map = [CHR 0xF0, CHR 0x9F, CHR 0x97, CHR 0xBA]"

definition motorway :: string where
  "motorway = [CHR 0xF0, CHR 0x9F, CHR 0x9B, CHR 0xA3]"

definition robot :: string where
  "robot = [CHR 0xF0, CHR 0x9F, CHR 0xA4, CHR 0x96]"

definition apostrophe :: string where
  "apostrophe = [CHR 0x27]"

definition dquote :: string where
  "dquote = [CHR 0x22]"

definition backslash :: string where
  "backslash = [CHR 0x5C]"


text \<open>
  JavaScript truthiness of an optional string: \<open>undefined\<close> and the empty string are
  falsy. \<open>a || b\<close> yields \<open>a\<close> when it is truthy and \<open>b\<close> otherwise.
\<close>

definition truthy :: "string option \<Rightarrow> bool" where
  "truthy t = (case t of None \<Rightarrow> False | Some s \<Rightarrow> s \<noteq> [])"

definition or_string :: "string option \<Rightarrow> string \<Rightarrow> string" where
  "or_string t d = (case t of None \<Rightarrow> d | Some s \<Rightarrow> if s = [] then d else s)"

text \<open>
  \<open>String.prototype.trim\<close> removes the code points of WhiteSpace and LineTerminator
  from both ends: U+0009 to U+000D, U+0020, U+00A0, U+1680, U+2000 to U+200A, U+2028,
  U+2029, U+202F, U+205F, U+3000 and U+FEFF, listed here by their encodings.
\<close>

definition white_space :: "string list" where
  "white_space =
     [[CHR 0x09], [CHR 0x0A], [CHR 0x0B], [CHR 0x0C], [CHR 0x0D], [CHR 0x20],
      [CHR 0xC2, CHR 0xA0], [CHR 0xE1, CHR 0x9A, CHR 0x80],
      [CHR 0xE2, CHR 0x80, CHR 0x80], [CHR 0xE2, CHR 0x80, CHR 0x81],
      [CHR 0xE2, CHR 0x80, CHR 0x82], [CHR 0xE2, CHR 0x80, CHR 0x83],
      [CHR 0xE2, CHR 0x80, CHR 0x84], [CHR 0xE2, CHR 0x80, CHR 0x85],
      [CHR 0xE2, CHR 0x80, CHR 0x86], [CHR 0xE2, CHR 0x80, CHR 0x87],
      [CHR 0xE2, CHR 0x80, CHR 0x88], [CHR 0xE2, CHR 0x80, CHR 0x89],
      [CHR 0xE2, CHR 0x80, CHR 0x8A], [CHR 0xE2, CHR 0x80, CHR 0xA8],
      [CHR 0xE2, CHR 0x80, CHR 0xA9], [CHR 0xE2, CHR 0x80, CHR 0xAF],
      [CHR 0xE2, CHR 0x81, CHR 0x9F], [CHR 0xE3, CHR 0x80, CHR 0x80],
      [CHR 0xEF, CHR 0xBB, CHR 0xBF]]"

definition leading_space :: "string \<Rightarrow> nat" where
  "leading_space s = (case find (\<lambda>w. prefix w s) white_space of None \<Rightarrow> 0 | Some w \<Rightarrow> length w)"

definition trailing_space :: "string \<Rightarrow> nat" where
  "trailing_space s = (case find (\<lambda>w. suffix w s) white_space of None \<Rightarrow> 0 | Some w \<Rightarrow> length w)"

function trimStart :: "string \<Rightarrow> string" where
  "trimStart s = (if leading_space s = 0 \<or> s = [] then s else trimStart (drop (leading_space s) s))"
  by pat_completeness auto
termination
  by (relation "measure length") auto

function trimEnd :: "string \<Rightarrow> string" where
  "trimEnd s = (if trailing_space s = 0 \<or> s = [] then s
                else trimEnd (take (length s - trailing_space s) s))"
  by pat_completeness auto
termination
  by (relation "measure length") auto

definition trim :: "string \<Rightarrow> string" where
  "trim s = trimEnd (trimStart s)"

text \<open>\<open>Number.prototype.toString\<close> on an integer: its decimal digits, after the sign.\<close>

definition digit_char :: "int \<Rightarrow> char" where
  "digit_char d = char_of (48 + d)"

function digits :: "int \<Rightarrow> string" where
  "digits i = (if i < 10 then [digit_char i] else digits (i div 10) @ [digit_char (i mod 10)])"
  by pat_completeness auto
termination
  by (relation "measure nat") auto

declare digits.simps [simp del]

definition toString :: "int \<Rightarrow> string" where
  "toString i = (if i < 0 then ''-'' @ digits (- i) else digits i)"

section \<open>Data model (types.ts)\<close>

datatype Sender = BOT | USER | SYSTEM

datatype ReportCategory =
  STRUCTURE | FLOODING | LANDSLIDE | INFRASTRUCTURE | INDOOR | EXTREME | OTHER

text \<open>The string value of each member of the enum.\<close>

fun category_value :: "ReportCategory \<Rightarrow> string" where
  "category_value STRUCTURE = ''Rachaduras e Estruturas''"
| "category_value FLOODING = ''Alagamentos e Enchentes''"
| "category_value LANDSLIDE = ''Deslizamentos e Encostas''"
| "category_value INFRASTRUCTURE = ''Riscos em Infraestrutura''"
| "category_value INDOOR = ''Dentro de Casa''"
| "category_value EXTREME = ''Sinais Clim'' @ a_acute @ ''ticos Extremos''"
| "category_value OTHER = ''Outro''"

text \<open>
  \<open>number\<close>: a severity is an integer (the scale of the data model); a latitude, a
  longitude or a quotient is the exact rational value of the double. A \<open>Date\<close> is its
  time value, the milliseconds since the epoch.
\<close>

record QuickReplyOption =
  q_label :: string
  q_value :: string

record Message =
  m_id :: string
  m_sender :: Sender
  m_text :: string
  m_timestamp :: int
  m_isQuickReply :: bool
  m_options :: "QuickReplyOption list option"
  m_isLocationRequest :: bool
  m_image :: "string option"

record Coordinates =
  lat :: rat
  lng :: rat

datatype Status = pending | verified | resolved

record Report =
  r_id :: string
  r_category :: string
  r_subcategory :: "string option"
  r_description :: string
  r_location :: Coordinates
  r_neighborhood :: "string option"
  r_timestamp :: int
  r_severity :: int
  r_aiAnalysis :: string
  r_status :: Status
  r_imageUrl :: "string option"

record AiResponse =
  a_text :: string
  a_severity :: int
  a_category :: "string option"

record LocationExtractionResponse =
  l_neighborhood :: string
  l_coordinates :: Coordinates
  l_confirmationText :: string

section \<open>AI gateway (services/geminiService)\<close>

text \<open>
  The transport \<open>ai.models.generateContent\<close> either throws or resolves to a response
  whose \<open>text\<close> may be undefined. What it answers is the environment's choice; it is
  given as a function of the arguments from which each operation builds its prompt.
  \<open>JSON.parse\<close> followed by the unchecked cast to the result type is a parameter as
  well: \<open>None\<close> when it throws, the parsed value otherwise.
\<close>

datatype reply = Throws | Text "string option"

record transport =
  gen_analysis :: "string \<Rightarrow> string \<Rightarrow> reply"
  gen_location :: "string \<Rightarrow> reply"
  gen_greeting :: reply
  gen_category :: "string \<Rightarrow> reply"
  parse_analysis :: "string \<Rightarrow> AiResponse option"
  parse_location :: "string \<Rightarrow> LocationExtractionResponse option"

datatype exn = TransportError | NoResponse | SyntaxError

definition analysis_fallback_text :: string where
  "analysis_fallback_text =
     ''Entendido. Por favor, compartilhe a localiza'' @ c_cedilla @ a_tilde @ ''o para que possamos registrar a ocorr'' @ e_circ @ ''ncia.''"

definition location_fallback_text :: string where
  "location_fallback_text =
     ''N'' @ a_tilde @ ''o consegui identificar o local exato pelo texto. Usarei o centro da cidade como refer'' @ e_circ @ ''ncia.''"

definition canned_greeting :: string where
  "canned_greeting =
     ''Ol'' @ a_acute @ ''! '' @ robot @ '' Sou o EcoSalvador, seu assistente virtual inteligente. Utilizo IA e geolocaliza'' @ c_cedilla @ a_tilde @ ''o para monitorar e registrar problemas ambientais em nossa cidade '' @ globe @ ''. Como posso ajudar voc'' @ e_circ @ '' hoje?''"

text \<open>The body of each \<open>try\<close> block, with every throw as a left value.\<close>

definition analyze_try :: "transport \<Rightarrow> string \<Rightarrow> string \<Rightarrow> exn + AiResponse" where
  "analyze_try T description selectedCategory =
     (case gen_analysis T description selectedCategory of
        Throws \<Rightarrow> Inl TransportError
      | Text jsonText \<Rightarrow>
          if \<not> truthy jsonText then Inl NoResponse
          else (case parse_analysis T (the jsonText) of
                  None \<Rightarrow> Inl SyntaxError
                | Some r \<Rightarrow> Inr r))"

definition analyzeReportDescription :: "transport \<Rightarrow> string \<Rightarrow> string \<Rightarrow> AiResponse" where
  "analyzeReportDescription T description selectedCategory =
     (case analyze_try T description selectedCategory of
        Inr r \<Rightarrow> r
      | Inl error \<Rightarrow> \<lparr>a_text = analysis_fallback_text, a_severity = 3, a_category = None\<rparr>)"

definition extract_try :: "transport \<Rightarrow> string \<Rightarrow> exn + LocationExtractionResponse" where
  "extract_try T text =
     (case gen_location T text of
        Throws \<Rightarrow> Inl TransportError
      | Text jsonText \<Rightarrow>
          if \<not> truthy jsonText then Inl NoResponse
          else (case parse_location T (the jsonText) of
                  None \<Rightarrow> Inl SyntaxError
                | Some r \<Rightarrow> Inr r))"

definition extractLocationFromText :: "transport \<Rightarrow> string \<Rightarrow> LocationExtractionResponse" where
  "extractLocationFromText T text =
     (case extract_try T text of
        Inr r \<Rightarrow> r
      | Inl error \<Rightarrow>
          \<lparr>l_neighborhood = ''Salvador (Centro)'',
           l_coordinates = \<lparr>lat = - 12.9777, lng = - 38.5016\<rparr>,
           l_confirmationText = location_fallback_text\<rparr>)"

definition greeting_try :: "transport \<Rightarrow> exn + string" where
  "greeting_try T =
     (case gen_greeting T of
        Throws \<Rightarrow> Inl TransportError
      | Text t \<Rightarrow> Inr (or_string t canned_greeting))"

definition generateInitialGreeting :: "transport \<Rightarrow> string" where
  "generateInitialGreeting T =
     (case greeting_try T of Inr g \<Rightarrow> g | Inl e \<Rightarrow> canned_greeting)"

definition validCategories :: "string list" where
  "validCategories =
     map category_value [STRUCTURE, FLOODING, LANDSLIDE, INFRASTRUCTURE, INDOOR, EXTREME, OTHER]"

definition infer_try :: "transport \<Rightarrow> string \<Rightarrow> exn + string option" where
  "infer_try T text =
     (case gen_category T text of
        Throws \<Rightarrow> Inl TransportError
      | Text t \<Rightarrow>
          (let result = map_option trim t
           in if truthy result \<and> the result \<in> set validCategories then Inr result
              else Inr None))"

definition inferCategoryFromText :: "transport \<Rightarrow> string \<Rightarrow> string option" where
  "inferCategoryFromText T text =
     (case infer_try T text of Inr r \<Rightarrow> r | Inl e \<Rightarrow> None)"

text \<open>A transport call fails when it throws or yields an empty response.\<close>

definition failed :: "reply \<Rightarrow> bool" where
  "failed r = (r = Throws \<or> r = Text None \<or> r = Text (Some []))"

definition dead_transport :: transport where
  "dead_transport =
     \<lparr>gen_analysis = (\<lambda>d c. Throws), gen_location = (\<lambda>t. Text None),
      gen_greeting = Text (Some []), gen_category = (\<lambda>t. Throws),
      parse_analysis = (\<lambda>j. None), parse_location = (\<lambda>j. None)\<rparr>"

section \<open>Numbers of the dashboard\<close>

text \<open>
  A double is held as the rational it denotes. \<open>fround\<close> maps a rational to the nearest
  double, ties to the even significand (53 bits), which is what a division, a
  subtraction or \<open>parseFloat\<close> returns for the exact result. The exponent range is not
  bounded here: the doubles of the dashboard are quotients and differences of sums of
  severities and of counts, far from overflow and underflow. Sums of severities are
  integers and are exact in the source as long as they stay below \<open>2^53\<close> in magnitude.
\<close>

definition pow2 :: "int \<Rightarrow> rat" where
  "pow2 e = (if 0 \<le> e then 2 ^ nat e else 1 / 2 ^ nat (- e))"








definition digits_value :: "string \<Rightarrow> int" where
  "digits_value ds = foldl (\<lambda>a c. 10 * a + (of_char c - 48)) 0 ds"



section \<open>Objects used as tables\<close>






section \<open>Report aggregator (components/Dashboard)\<close>

subsection \<open>Risk by neighbourhood\<close>









fun first_seen :: "'a list \<Rightarrow> 'a list" where
  "first_seen [] = []"
| "first_seen (x # xs) = x # filter (\<lambda>y. y \<noteq> x) (first_seen xs)"






subsection \<open>Reports by category\<close>










subsection \<open>Severity distribution\<close>







subsection \<open>KPIs\<close>




section \<open>Dialogue flow controller (App)\<close>

subsection \<open>Fixed texts and option sets\<close>

definition category_prompt :: string where
  "category_prompt = ''Selecione a categoria que melhor descreve o que voc'' @ e_circ @ '' est'' @ a_acute @ '' observando:''"

definition identified_prefix :: string where
  "identified_prefix = ''Entendido. Identifiquei que se trata de: ''"

definition location_prompt_inferred :: string where
  "location_prompt_inferred = ''Para finalizar, como prefere informar a localiza'' @ c_cedilla @ a_tilde @ ''o exata?''"

definition not_identified_text :: string where
  "not_identified_text = ''N'' @ a_tilde @ ''o consegui identificar a categoria automaticamente. Por favor, selecione uma das op'' @ c_cedilla @ o_tilde @ ''es.''"

definition location_prompt :: string where
  "location_prompt = ''Como voc'' @ e_circ @ '' prefere informar a localiza'' @ c_cedilla @ a_tilde @ ''o da ocorr'' @ e_circ @ ''ncia?''"

definition subcategory_prompt :: string where
  "subcategory_prompt = ''Pode especificar melhor o problema?''"

definition describe_suffix :: string where
  "describe_suffix = ''. Por favor, descreva a situa'' @ c_cedilla @ a_tilde @ ''o ou envie uma foto.''"

definition details_prompt :: string where
  "details_prompt = ''Entendido. Se tiver mais detalhes ou uma foto, pode enviar agora. Caso contr'' @ a_acute @ ''rio, apenas digite '' @ apostrophe @ ''ok'' @ apostrophe @ ''.''"

definition no_description :: string where
  "no_description = ''Sem descri'' @ c_cedilla @ a_tilde @ ''o detalhada''"

definition no_analysis :: string where
  "no_analysis = ''Sem an'' @ a_acute @ ''lise''"

definition registered_text :: string where
  "registered_text = check_mark @ '' Den'' @ u_acute @ ''ncia registrada e analisada pela IA. O local foi adicionado ao mapa de risco.''"

definition what_next_text :: string where
  "what_next_text = ''O que deseja fazer agora?''"

definition new_report_label :: string where
  "new_report_label = ''Nova den'' @ u_acute @ ''ncia''"

definition view_map_label :: string where
  "view_map_label = ''Ver Mapa de Risco''"

definition gps_received_text :: string where
  "gps_received_text = pushpin @ '' Localiza'' @ c_cedilla @ a_tilde @ ''o GPS recebida.''"

definition gps_label :: string where
  "gps_label = ''Localiza'' @ c_cedilla @ a_tilde @ ''o GPS''"

definition gps_error_text :: string where
  "gps_error_text = ''Erro ao obter GPS. Tente digitar o bairro ou usar o mapa.''"

definition gps_unsupported_text :: string where
  "gps_unsupported_text = ''GPS n'' @ a_tilde @ ''o suportado.''"

definition will_type_text :: string where
  "will_type_text = writing_hand @ variation16 @ '' Vou digitar o endere'' @ c_cedilla @ ''o/bairro''"

definition type_location_prompt :: string where
  "type_location_prompt = ''Por favor, digite o nome do bairro e um ponto de refer'' @ e_circ @ ''ncia pr'' @ o_acute @ ''ximo.''"

definition will_mark_text :: string where
  "will_mark_text = world_map @ variation16 @ '' Vou marcar no mapa''"

definition map_marked_text :: string where
  "map_marked_text = pushpin @ '' Local marcado no mapa.''"

definition map_label :: string where
  "map_label = ''Marcado no Mapa''"

definition new_report_prompt :: string where
  "new_report_prompt = ''Sobre qual tipo de problema clim'' @ a_acute @ ''tico deseja alertar?''"

definition MAIN_CATEGORIES :: "QuickReplyOption list" where
  "MAIN_CATEGORIES =
     [\<lparr>q_label = derelict_house @ variation16 @ '' Rachaduras e Estruturas'', q_value = category_value STRUCTURE\<rparr>,
      \<lparr>q_label = rain_cloud @ variation16 @ '' Alagamentos e Enchentes'', q_value = category_value FLOODING\<rparr>,
      \<lparr>q_label = volcano @ '' Deslizamentos e Encostas'', q_value = category_value LANDSLIDE\<rparr>,
      \<lparr>q_label = motorway @ variation16 @ '' Infraestrutura Urbana'', q_value = category_value INFRASTRUCTURE\<rparr>,
      \<lparr>q_label = house @ '' Dentro de Casa'', q_value = category_value INDOOR\<rparr>,
      \<lparr>q_label = tornado @ variation16 @ '' Sinais Extremos'', q_value = category_value EXTREME\<rparr>]"

definition SUB_CATEGORIES :: "(string \<times> QuickReplyOption list) list" where
  "SUB_CATEGORIES =
     [(category_value STRUCTURE,
       [\<lparr>q_label = ''Rachaduras em parede'', q_value = ''Rachaduras em parede''\<rparr>,
        \<lparr>q_label = ''Rachaduras no ch'' @ a_tilde @ ''o'', q_value = ''Rachaduras no ch'' @ a_tilde @ ''o ou solo''\<rparr>,
        \<lparr>q_label = ''Muro inclinando'', q_value = ''Muro inclinando''\<rparr>,
        \<lparr>q_label = ''Poste torto'', q_value = ''Poste torto ou prestes a cair''\<rparr>,
        \<lparr>q_label = ''Portas/janelas travando'', q_value = ''Portas e janelas travando''\<rparr>]),
      (category_value FLOODING,
       [\<lparr>q_label = ''Bueiro entupido'', q_value = ''Bueiro entupido''\<rparr>,
        \<lparr>q_label = A_acute @ ''gua acumulada na rua'', q_value = A_acute @ ''gua acumulada na rua''\<rparr>,
        \<lparr>q_label = ''Alagamento em casa'', q_value = ''Alagamento dentro de casa''\<rparr>,
        \<lparr>q_label = ''Ralo retornando'', q_value = ''Ralo retornando '' @ a_acute @ ''gua''\<rparr>,
        \<lparr>q_label = ''Esgoto transbordando'', q_value = ''Esgoto transbordando''\<rparr>]),
      (category_value LANDSLIDE,
       [\<lparr>q_label = ''Terra deslizando'', q_value = ''Terra deslizando''\<rparr>,
        \<lparr>q_label = ''Poeira saindo do barranco'', q_value = ''Poeira saindo do barranco''\<rparr>,
        \<lparr>q_label = ''Fenda no solo'', q_value = ''Fenda no solo''\<rparr>,
        \<lparr>q_label = A_acute @ ''rvore inclinando'', q_value = A_acute @ ''rvore inclinando em encosta''\<rparr>,
        \<lparr>q_label = ''Barulho de terra'', q_value = ''Barulho de terra rompendo''\<rparr>]),
      (category_value INFRASTRUCTURE,
       [\<lparr>q_label = ''Buraco grande na rua'', q_value = ''Buraco grande na rua''\<rparr>,
        \<lparr>q_label = ''Cratera se formando'', q_value = ''Cratera se formando''\<rparr>,
        \<lparr>q_label = ''Ponte com rachaduras'', q_value = ''Ponte com rachaduras''\<rparr>,
        \<lparr>q_label = ''Cal'' @ c_cedilla @ ''ada cedendo'', q_value = ''Cal'' @ c_cedilla @ ''ada cedendo''\<rparr>,
        \<lparr>q_label = ''Eros'' @ a_tilde @ ''o perto de casas'', q_value = ''Eros'' @ a_tilde @ ''o perto de casas''\<rparr>]),
      (category_value INDOOR,
       [\<lparr>q_label = ''Infiltra'' @ c_cedilla @ a_tilde @ ''o na parede'', q_value = ''Infiltra'' @ c_cedilla @ a_tilde @ ''o na parede''\<rparr>,
        \<lparr>q_label = ''Mofo repentino'', q_value = ''Mofo repentino''\<rparr>,
        \<lparr>q_label = ''Vazamento no teto'', q_value = ''Vazamento no teto''\<rparr>,
        \<lparr>q_label = ''Piso estufando'', q_value = ''Piso estufando''\<rparr>,
        \<lparr>q_label = ''Azulejos soltando'', q_value = ''Azulejos soltando''\<rparr>]),
      (category_value EXTREME,
       [\<lparr>q_label = ''Chuva muito forte'', q_value = ''Chuva muito forte''\<rparr>,
        \<lparr>q_label = ''Vento forte/Destrui'' @ c_cedilla @ a_tilde @ ''o'', q_value = ''Vento forte derrubando objetos''\<rparr>,
        \<lparr>q_label = ''Rio subindo'', q_value = ''Rio subindo rapidamente''\<rparr>,
        \<lparr>q_label = ''Cheiro forte bueiro'', q_value = ''Cheiro forte vindo dos bueiros''\<rparr>,
        \<lparr>q_label = A_acute @ ''gua barrenta'', q_value = A_acute @ ''gua barrenta surgindo''\<rparr>])]"

subsection \<open>State\<close>

datatype FlowStep =
  GREETING | CATEGORY_SELECTION | SUBCATEGORY_SELECTION | DESCRIPTION |
  LOCATION_METHOD_SELECTION | LOCATION_INPUT_TEXT | LOCATION_INPUT_MAP | COMPLETED

datatype View = chat | dashboard

text \<open>
  The draft \<open>tempReportData\<close> is a \<open>Partial<Report>\<close>; these are the fields the
  controller ever writes or reads.
\<close>

record ReportDraft =
  d_category :: "string option"
  d_subcategory :: "string option"
  d_description :: "string option"
  d_severity :: "int option"
  d_aiAnalysis :: "string option"
  d_imageUrl :: "string option"

definition empty_draft :: ReportDraft where
  "empty_draft =
     \<lparr>d_category = None, d_subcategory = None, d_description = None,
      d_severity = None, d_aiAnalysis = None, d_imageUrl = None\<rparr>"

text \<open>
  The component's state, together with the system clock: \<open>clock s k\<close> is what the
  \<open>k\<close>-th reading of the clock (\<open>Date.now()\<close> or \<open>new Date()\<close>) returns, and \<open>reads s\<close>
  counts the readings made so far.
\<close>

record App =
  view :: View
  messages :: "Message list"
  reports :: "Report list"
  currentStep :: FlowStep
  tempReportData :: ReportDraft
  isTyping :: bool
  waitingForLocation :: bool
  showMapPicker :: bool
  clock :: "nat \<Rightarrow> int"
  reads :: nat

definition initial :: "(nat \<Rightarrow> int) \<Rightarrow> App" where
  "initial clk =
     \<lparr>view = chat, messages = [], reports = [], currentStep = GREETING,
      tempReportData = empty_draft, isTyping = False, waitingForLocation = False,
      showMapPicker = False, clock = clk, reads = 0\<rparr>"

definition Date_now :: "App \<Rightarrow> int \<times> App" where
  "Date_now s = (clock s (reads s), s\<lparr>reads := Suc (reads s)\<rparr>)"

subsection \<open>Handlers\<close>

text \<open>
  One user event is handled to completion before the next: a handler is the
  composition of its synchronous part, the continuations of its awaits and the callbacks
  of the timers it starts, in the order in which they fire. A handler reads
  \<open>currentStep\<close> and \<open>tempReportData\<close> from the render in which it was created, that is
  from the state at the start of the event; updates written as \<open>prev => ...\<close> apply to
  the latest state.
\<close>

definition addMessage ::
  "string \<Rightarrow> Sender \<Rightarrow> bool \<Rightarrow> QuickReplyOption list option \<Rightarrow> bool \<Rightarrow> string option \<Rightarrow>
   App \<Rightarrow> App" where
  "addMessage text sender isQuickReply options isLocationRequest img s =
     (let (now, s) = Date_now s;
          (date, s) = Date_now s;
          newMessage =
            \<lparr>m_id = toString now, m_sender = sender, m_text = text, m_timestamp = date,
             m_isQuickReply = isQuickReply, m_options = options,
             m_isLocationRequest = isLocationRequest, m_image = img\<rparr>
      in s\<lparr>messages := messages s @ [newMessage]\<rparr>)"

definition processBotResponse :: "transport \<Rightarrow> App \<Rightarrow> App" where
  "processBotResponse T s0 =
     (let s = s0\<lparr>isTyping := True\<rparr>
      in if currentStep s0 = GREETING then
           (let greeting = generateInitialGreeting T;
                s = addMessage greeting BOT False None False None s;
                s = s\<lparr>isTyping := False\<rparr>;
                \<comment> \<open>timer, 2000 ms\<close>
                s = addMessage category_prompt BOT True (Some MAIN_CATEGORIES) False None s
            in s\<lparr>currentStep := CATEGORY_SELECTION\<rparr>)
         else s\<lparr>isTyping := False\<rparr>)"

definition mount :: "transport \<Rightarrow> App \<Rightarrow> App" where
  "mount T s = (if length (messages s) = 0 then processBotResponse T s else s)"

text \<open>
  \<open>finalizeReport\<close> reads the draft of the render that created it, passed here as
  \<open>draft\<close>; its timer (1000 ms) fires after the caller's synchronous code.
\<close>

definition or_severity :: "int option \<Rightarrow> int \<Rightarrow> int" where
  "or_severity v d = (case v of None \<Rightarrow> d | Some n \<Rightarrow> if n = 0 then d else n)"

definition newReport :: "ReportDraft \<Rightarrow> Coordinates \<Rightarrow> string option \<Rightarrow> int \<Rightarrow> int \<Rightarrow> Report" where
  "newReport draft coords neighborhood now date =
     \<lparr>r_id = toString now,
      r_category = or_string (d_category draft) (category_value OTHER),
      r_subcategory = d_subcategory draft,
      r_description =
        or_string (d_description draft) (or_string (d_subcategory draft) no_description),
      r_location = coords,
      r_neighborhood = neighborhood,
      r_timestamp = date,
      r_severity = or_severity (d_severity draft) 1,
      r_aiAnalysis = or_string (d_aiAnalysis draft) no_analysis,
      r_status = pending,
      r_imageUrl = d_imageUrl draft\<rparr>"

definition finalizeReport :: "ReportDraft \<Rightarrow> Coordinates \<Rightarrow> string option \<Rightarrow> App \<Rightarrow> App" where
  "finalizeReport draft coords neighborhood s =
     (let (now, s) = Date_now s;
          (date, s) = Date_now s;
          s = s\<lparr>reports := reports s @ [newReport draft coords neighborhood now date]\<rparr>
      in s\<lparr>isTyping := True\<rparr>)"

definition finalizeReport_timer :: "App \<Rightarrow> App" where
  "finalizeReport_timer s =
     (let s = addMessage registered_text BOT False None False None s;
          s = addMessage what_next_text BOT True
                (Some [\<lparr>q_label = new_report_label, q_value = ''NEW_REPORT''\<rparr>,
                       \<lparr>q_label = view_map_label, q_value = ''VIEW_MAP''\<rparr>]) False None s;
          s = s\<lparr>currentStep := COMPLETED\<rparr>
      in s\<lparr>isTyping := False\<rparr>)"

definition handleUserMessage :: "transport \<Rightarrow> string \<Rightarrow> string option \<Rightarrow> App \<Rightarrow> App" where
  "handleUserMessage T text img s0 =
     (let s = (if truthy img
               then s0\<lparr>tempReportData := (tempReportData s0)\<lparr>d_imageUrl := img\<rparr>\<rparr>
               else s0);
          s = addMessage text USER False None False img s
      in if currentStep s0 = CATEGORY_SELECTION \<or> currentStep s0 = SUBCATEGORY_SELECTION then
           (let s = s\<lparr>isTyping := True\<rparr>;
                inferredCategory = inferCategoryFromText T text
            in if truthy inferredCategory then
                 (let s = s\<lparr>tempReportData :=
                            empty_draft\<lparr>d_category := inferredCategory, d_description := Some text\<rparr>\<rparr>;
                      s = addMessage (identified_prefix @ the inferredCategory @ ''.'')
                            BOT False None False None s;
                      analysis = analyzeReportDescription T text (the inferredCategory);
                      s = s\<lparr>tempReportData := (tempReportData s)
                            \<lparr>d_severity := Some (a_severity analysis),
                             d_aiAnalysis := Some (a_text analysis)\<rparr>\<rparr>;
                      s = s\<lparr>isTyping := False\<rparr>;
                      \<comment> \<open>timer, 1000 ms\<close>
                      s = addMessage (a_text analysis) BOT False None False None s;
                      \<comment> \<open>timer, 1000 ms later\<close>
                      s = addMessage location_prompt_inferred BOT False None True None s
                  in s\<lparr>currentStep := LOCATION_METHOD_SELECTION\<rparr>)
               else
                 (let s = addMessage not_identified_text BOT True (Some MAIN_CATEGORIES) False None s;
                      s = s\<lparr>currentStep := CATEGORY_SELECTION\<rparr>
                  in s\<lparr>isTyping := False\<rparr>))
         else if currentStep s0 = DESCRIPTION then
           (let s = s\<lparr>isTyping := True\<rparr>;
                fullDescription =
                  (if truthy (d_subcategory (tempReportData s0))
                   then ''['' @ the (d_subcategory (tempReportData s0)) @ ''] - '' @ text
                   else text);
                analysis = analyzeReportDescription T fullDescription
                  (case d_category (tempReportData s0) of None \<Rightarrow> ''undefined'' | Some c \<Rightarrow> c);
                s = s\<lparr>tempReportData := (tempReportData s)
                      \<lparr>d_description := Some fullDescription,
                       d_severity := Some (a_severity analysis),
                       d_aiAnalysis := Some (a_text analysis)\<rparr>\<rparr>;
                s = addMessage (a_text analysis) BOT False None False None s;
                s = s\<lparr>isTyping := False\<rparr>;
                \<comment> \<open>timer, 800 ms\<close>
                s = addMessage location_prompt BOT False None True None s
            in s\<lparr>currentStep := LOCATION_METHOD_SELECTION\<rparr>)
         else if currentStep s0 = LOCATION_INPUT_TEXT then
           (let s = s\<lparr>isTyping := True\<rparr>;
                locationData = extractLocationFromText T text;
                s = addMessage (l_confirmationText locationData) BOT False None False None s;
                s = finalizeReport (tempReportData s0)
                      \<lparr>lat = lat (l_coordinates locationData), lng = lng (l_coordinates locationData)\<rparr>
                      (Some (l_neighborhood locationData)) s;
                s = s\<lparr>isTyping := False\<rparr>
            in finalizeReport_timer s)
         else s)"

definition handlePostCompletionAction :: "string \<Rightarrow> App \<Rightarrow> App" where
  "handlePostCompletionAction value s =
     (if value = ''NEW_REPORT'' then
        (let s = addMessage new_report_label USER False None False None s;
             s = s\<lparr>tempReportData := empty_draft\<rparr>;
             \<comment> \<open>timer, 500 ms\<close>
             s = addMessage new_report_prompt BOT True (Some MAIN_CATEGORIES) False None s
         in s\<lparr>currentStep := CATEGORY_SELECTION\<rparr>)
      else if value = ''VIEW_MAP'' then s\<lparr>view := dashboard\<rparr>
      else s)"

text \<open>
  \<open>SUB_CATEGORIES[value]\<close> is a lookup in the table; a quick-reply value is the value of
  an option offered in the transcript, none of which names a member of
  \<open>Object.prototype\<close>.
\<close>

definition handleQuickReply :: "string \<Rightarrow> App \<Rightarrow> App" where
  "handleQuickReply value s0 =
     (if currentStep s0 = CATEGORY_SELECTION then
        (let selectedMain = find (\<lambda>opt. q_value opt = value) MAIN_CATEGORIES;
             label = (case selectedMain of Some opt \<Rightarrow> q_label opt | None \<Rightarrow> value);
             s = addMessage label USER False None False None s0;
             s = s\<lparr>tempReportData := empty_draft\<lparr>d_category := Some value\<rparr>\<rparr>;
             subOptions = map_of SUB_CATEGORIES value
         in if (case subOptions of None \<Rightarrow> False | Some opts \<Rightarrow> length opts > 0) then
              (let s = s\<lparr>isTyping := True\<rparr>;
                   \<comment> \<open>timer, 600 ms\<close>
                   s = addMessage subcategory_prompt BOT True subOptions False None s;
                   s = s\<lparr>currentStep := SUBCATEGORY_SELECTION\<rparr>
               in s\<lparr>isTyping := False\<rparr>)
            else
              (let s = s\<lparr>isTyping := True\<rparr>;
                   \<comment> \<open>timer, 800 ms\<close>
                   s = addMessage (''Certo, '' @ label @ describe_suffix) BOT False None False None s;
                   s = s\<lparr>currentStep := DESCRIPTION\<rparr>
               in s\<lparr>isTyping := False\<rparr>))
      else if currentStep s0 = SUBCATEGORY_SELECTION then
        (let s = addMessage value USER False None False None s0;
             s = s\<lparr>tempReportData := (tempReportData s)\<lparr>d_subcategory := Some value\<rparr>\<rparr>;
             s = s\<lparr>isTyping := True\<rparr>;
             \<comment> \<open>timer, 800 ms\<close>
             s = addMessage details_prompt BOT False None False None s;
             s = s\<lparr>currentStep := DESCRIPTION\<rparr>
         in s\<lparr>isTyping := False\<rparr>)
      else if currentStep s0 = COMPLETED then handlePostCompletionAction value s0
      else s0)"

datatype LocationMethod = Method_gps | Method_map | Method_text

text \<open>
  The geolocation source: absent from \<open>navigator\<close>, or a one-shot request that calls
  back with a position or with an error.
\<close>

datatype geolocation = Unsupported | Position rat rat | PositionError

definition handleLocationRequest :: "LocationMethod \<Rightarrow> geolocation \<Rightarrow> App \<Rightarrow> App" where
  "handleLocationRequest method geo s0 =
     (case method of
        Method_gps \<Rightarrow>
          (let s = s0\<lparr>waitingForLocation := True\<rparr>
           in case geo of
                Position latitude longitude \<Rightarrow>
                  (let s = s\<lparr>waitingForLocation := False\<rparr>;
                       s = addMessage gps_received_text USER False None False None s;
                       s = finalizeReport (tempReportData s0)
                             \<lparr>lat = latitude, lng = longitude\<rparr> (Some gps_label) s
                   in finalizeReport_timer s)
              | PositionError \<Rightarrow>
                  (let s = s\<lparr>waitingForLocation := False\<rparr>
                   in addMessage gps_error_text BOT False None False None s)
              | Unsupported \<Rightarrow>
                  (let s = s\<lparr>waitingForLocation := False\<rparr>
                   in addMessage gps_unsupported_text BOT False None False None s))
      | Method_text \<Rightarrow>
          (let s = addMessage will_type_text USER False None False None s0;
               s = s\<lparr>isTyping := True\<rparr>;
               \<comment> \<open>timer, 500 ms\<close>
               s = addMessage type_location_prompt BOT False None False None s;
               s = s\<lparr>currentStep := LOCATION_INPUT_TEXT\<rparr>
           in s\<lparr>isTyping := False\<rparr>)
      | Method_map \<Rightarrow>
          (let s = addMessage will_mark_text USER False None False None s0;
               s = s\<lparr>showMapPicker := True\<rparr>
           in s\<lparr>currentStep := LOCATION_INPUT_MAP\<rparr>))"

definition handleMapLocationSelect :: "Coordinates \<Rightarrow> App \<Rightarrow> App" where
  "handleMapLocationSelect coords s0 =
     (let s = s0\<lparr>showMapPicker := False\<rparr>;
          s = addMessage map_marked_text USER False None False None s;
          s = finalizeReport (tempReportData s0) coords (Some map_label) s
      in finalizeReport_timer s)"

subsection \<open>Events\<close>

datatype event =
  Mount
| SendMessage string "string option"
| QuickReply string
| LocationRequest LocationMethod geolocation
| MapLocationSelect Coordinates
| CloseMapPicker
| SetView View

text \<open>Each event comes with what the transport answers while it is handled.\<close>

fun handle :: "transport \<Rightarrow> event \<Rightarrow> App \<Rightarrow> App" where
  "handle T Mount s = mount T s"
| "handle T (SendMessage text img) s = handleUserMessage T text img s"
| "handle T (QuickReply v) s = handleQuickReply v s"
| "handle T (LocationRequest method geo) s = handleLocationRequest method geo s"
| "handle T (MapLocationSelect coords) s = handleMapLocationSelect coords s"
| "handle T CloseMapPicker s = s\<lparr>showMapPicker := False\<rparr>"
| "handle T (SetView v) s = s\<lparr>view := v\<rparr>"

fun run :: "(transport \<times> event) list \<Rightarrow> App \<Rightarrow> App" where
  "run [] s = s"
| "run ((T, e) # es) s = run es (handle T e s)"

section \<open>A recorded session\<close>

text \<open>
  A session of the application, used to evaluate the controller: the user picks the
  flooding category and the sub-category "Bueiro entupido", types "ok", chooses the map
  and confirms a point on it. The transport answers the analysis request with a JSON
  text carrying the given severity and fails on every other request (so the greeting is
  the canned one). The clock readings are those of a run in which the two readings of
  one \<open>addMessage\<close> call, and the calls made in one synchronous stretch of code, fall
  into the same millisecond.
\<close>

definition analysis_json :: "int \<Rightarrow> string" where
  "analysis_json n =
     ''{'' @ dquote @ ''text'' @ dquote @ '':'' @ dquote @ ''Registrado.'' @ dquote @ '','' @
     dquote @ ''severity'' @ dquote @ '':'' @ toString n @ ''}''"

definition scripted_transport :: "int \<Rightarrow> transport" where
  "scripted_transport n =
     \<lparr>gen_analysis = (\<lambda>d c. Text (Some (analysis_json n))),
      gen_location = (\<lambda>t. Throws), gen_greeting = Throws, gen_category = (\<lambda>t. Throws),
      parse_analysis =
        (\<lambda>j. if j = analysis_json n
             then Some \<lparr>a_text = ''Registrado.'', a_severity = n, a_category = None\<rparr>
             else None),
      parse_location = (\<lambda>j. None)\<rparr>"

definition readings :: "int list" where
  "readings =
     [1762070401000, 1762070401000, 1762070403000, 1762070403000,
      1762070408000, 1762070408000, 1762070408600, 1762070408600,
      1762070412000, 1762070412000, 1762070412800, 1762070412800,
      1762070420000, 1762070420000, 1762070421500, 1762070421500,
      1762070422300, 1762070422300, 1762070425000, 1762070425000,
      1762070431000, 1762070431000, 1762070431000, 1762070431000,
      1762070432000, 1762070432000, 1762070432000, 1762070432000]"

definition wall_clock :: "nat \<Rightarrow> int" where
  "wall_clock k =
     (if k < length readings then readings ! k
      else last readings + 1000 * int (Suc k - length readings))"

definition described :: "int \<Rightarrow> (transport \<times> event) list" where
  "described n =
     [(scripted_transport n, Mount),
      (scripted_transport n, QuickReply (category_value FLOODING)),
      (scripted_transport n, QuickReply ''Bueiro entupido''),
      (scripted_transport n, SendMessage ''ok'' None)]"

definition marked_on_map :: "int \<Rightarrow> (transport \<times> event) list" where
  "marked_on_map n =
     described n @
     [(scripted_transport n, LocationRequest Method_map Unsupported),
      (scripted_transport n, MapLocationSelect \<lparr>lat = - 12.97, lng = - 38.50\<rparr>)]"

text \<open>
  A transport that answers the category request with the given text and the analysis
  request with the given severity, and the free text of a user who describes a crack.
\<close>

definition classifying_transport :: "string \<Rightarrow> int \<Rightarrow> transport" where
  "classifying_transport answer n = (scripted_transport n)\<lparr>gen_category := (\<lambda>t. Text (Some answer))\<rparr>"

definition crack_text :: string where
  "crack_text = ''tem uma rachadura enorme na minha parede''"

definition photo :: string where
  "photo = ''data:image/png;base64,iVBORw0KGgo=''"

text \<open>Sessions that stop where the witnesses below start.\<close>

definition greeted :: App where
  "greeted = run [(dead_transport, Mount)] (initial wall_clock)"

definition photo_kept :: App where
  "photo_kept =
     run [(dead_transport, Mount),
          (dead_transport, QuickReply (category_value FLOODING)),
          (dead_transport, SendMessage ''foto'' (Some photo))] (initial wall_clock)"


definition typing_location :: App where
  "typing_location =
     run (described 4 @ [(scripted_transport 4, LocationRequest Method_text Unsupported)])
       (initial wall_clock)"

definition map_open :: "int \<Rightarrow> App" where
  "map_open n =
     run (described n @ [(scripted_transport n, LocationRequest Method_map Unsupported)])
       (initial wall_clock)"




section \<open>Fallbacks of the gateway\<close>

lemma trim_Nil: "trim [] = []"
  by (simp add: trim_def)

text \<open>
  C1. When the transport call of an operation fails (it throws, or its response has no
  text or an empty one), \<open>analyzeReportDescription\<close> returns severity 3 with the fixed
  reassurance text, \<open>extractLocationFromText\<close> returns the city-centre coordinate
  (-12.9777, -38.5016) labelled "Salvador (Centro)" with the fixed apology,
  \<open>generateInitialGreeting\<close> returns the canned greeting and \<open>inferCategoryFromText\<close>
  returns null. Each operation is a total function into its result type: the catch
  block turns every exception of the try block into the fallback.
\<close>

theorem gateway_fallback:
  "(failed (gen_analysis T d c) \<longrightarrow>
      analyzeReportDescription T d c =
        \<lparr>a_text = analysis_fallback_text, a_severity = 3, a_category = None\<rparr>) \<and>
   (failed (gen_location T t) \<longrightarrow>
      extractLocationFromText T t =
        \<lparr>l_neighborhood = ''Salvador (Centro)'',
         l_coordinates = \<lparr>lat = - 12.9777, lng = - 38.5016\<rparr>,
         l_confirmationText = location_fallback_text\<rparr>) \<and>
   (failed (gen_greeting T) \<longrightarrow> generateInitialGreeting T = canned_greeting) \<and>
   (failed (gen_category T u) \<longrightarrow> inferCategoryFromText T u = None)"
  by (auto simp: failed_def analyzeReportDescription_def analyze_try_def
      extractLocationFromText_def extract_try_def generateInitialGreeting_def greeting_try_def
      inferCategoryFromText_def infer_try_def truthy_def or_string_def trim_Nil)

theorem gateway_fallback_witness:
  "failed (gen_analysis dead_transport ''rua alagada'' ''Outro'') \<and>
   failed (gen_location dead_transport ''Barra'') \<and>
   failed (gen_greeting dead_transport) \<and>
   failed (gen_category dead_transport ''rua alagada'') \<and>
   a_severity (analyzeReportDescription dead_transport ''rua alagada'' ''Outro'') = 3 \<and>
   a_text (analyzeReportDescription dead_transport ''rua alagada'' ''Outro'') = analysis_fallback_text \<and>
   l_coordinates (extractLocationFromText dead_transport ''Barra'') = \<lparr>lat = - 12.9777, lng = - 38.5016\<rparr> \<and>
   generateInitialGreeting dead_transport = canned_greeting \<and>
   inferCategoryFromText dead_transport ''rua alagada'' = None"
  using gateway_fallback [of dead_transport "''rua alagada''" "''Outro''" "''Barra''" "''rua alagada''"]
  by (simp add: failed_def dead_transport_def)

section \<open>The controller\<close>

subsection \<open>Reading the state after a handler\<close>

lemma addMessage_eq:
  "addMessage text sender q opts l img s =
     s\<lparr>reads := Suc (Suc (reads s)),
       messages := messages s @
         [\<lparr>m_id = toString (clock s (reads s)), m_sender = sender, m_text = text,
           m_timestamp = clock s (Suc (reads s)), m_isQuickReply = q, m_options = opts,
           m_isLocationRequest = l, m_image = img\<rparr>]\<rparr>"
  by (simp add: addMessage_def Date_now_def)

lemma addMessage_fields [simp]:
  "view (addMessage text sender q opts l img s) = view s"
  "reports (addMessage text sender q opts l img s) = reports s"
  "currentStep (addMessage text sender q opts l img s) = currentStep s"
  "tempReportData (addMessage text sender q opts l img s) = tempReportData s"
  "isTyping (addMessage text sender q opts l img s) = isTyping s"
  "waitingForLocation (addMessage text sender q opts l img s) = waitingForLocation s"
  "showMapPicker (addMessage text sender q opts l img s) = showMapPicker s"
  "clock (addMessage text sender q opts l img s) = clock s"
  "reads (addMessage text sender q opts l img s) = Suc (Suc (reads s))"
  "messages (addMessage text sender q opts l img s) = messages s @
         [\<lparr>m_id = toString (clock s (reads s)), m_sender = sender, m_text = text,
           m_timestamp = clock s (Suc (reads s)), m_isQuickReply = q, m_options = opts,
           m_isLocationRequest = l, m_image = img\<rparr>]"
  by (simp_all add: addMessage_eq)

lemma finalizeReport_fields [simp]:
  "view (finalizeReport d c n s) = view s"
  "messages (finalizeReport d c n s) = messages s"
  "currentStep (finalizeReport d c n s) = currentStep s"
  "tempReportData (finalizeReport d c n s) = tempReportData s"
  "isTyping (finalizeReport d c n s) = True"
  "waitingForLocation (finalizeReport d c n s) = waitingForLocation s"
  "showMapPicker (finalizeReport d c n s) = showMapPicker s"
  "clock (finalizeReport d c n s) = clock s"
  "reads (finalizeReport d c n s) = Suc (Suc (reads s))"
  "reports (finalizeReport d c n s) =
     reports s @ [newReport d c n (clock s (reads s)) (clock s (Suc (reads s)))]"
  by (simp_all add: finalizeReport_def Date_now_def)

lemma finalizeReport_timer_fields [simp]:
  "view (finalizeReport_timer s) = view s"
  "reports (finalizeReport_timer s) = reports s"
  "currentStep (finalizeReport_timer s) = COMPLETED"
  "tempReportData (finalizeReport_timer s) = tempReportData s"
  "isTyping (finalizeReport_timer s) = False"
  "waitingForLocation (finalizeReport_timer s) = waitingForLocation s"
  "showMapPicker (finalizeReport_timer s) = showMapPicker s"
  "clock (finalizeReport_timer s) = clock s"
  "reads (finalizeReport_timer s) = reads s + 4"
  by (simp_all add: finalizeReport_timer_def)

lemma validCategories_nonempty: "c \<in> set validCategories \<Longrightarrow> c \<noteq> []"
  by (auto simp: validCategories_def)

lemma inferCategoryFromText_Some:
  "inferCategoryFromText T t = Some c \<Longrightarrow> c \<in> set validCategories"
  by (auto simp: inferCategoryFromText_def infer_try_def Let_def
      split: reply.splits if_splits option.splits)

lemma inferCategoryFromText_truthy:
  "inferCategoryFromText T t = Some c \<Longrightarrow> truthy (Some c)"
  by (auto simp: truthy_def dest!: inferCategoryFromText_Some validCategories_nonempty)

subsection \<open>Free text while a category is awaited\<close>

text \<open>
  C3. Free text submitted in state CATEGORY_SELECTION: when \<open>inferCategoryFromText\<close>
  resolves it to a category (one of the enumeration), the draft records that category
  and the raw text as description, together with the severity and the analysis text that
  \<open>analyzeReportDescription\<close> returns for them; the transcript grows by the user's
  message, the acknowledgement, the AI response and the location-method prompt; and the
  state becomes LOCATION_METHOD_SELECTION, with no visit to SUBCATEGORY_SELECTION or
  DESCRIPTION. When inference returns null, the transcript grows by the user's message and
  the re-prompt carrying the main-category quick replies, and the state is
  CATEGORY_SELECTION.
\<close>

theorem free_text_category:
  assumes "currentStep s = CATEGORY_SELECTION"
  shows "(inferCategoryFromText T text = Some c \<longrightarrow>
            c \<in> set validCategories \<and>
            d_category (tempReportData (handleUserMessage T text img s)) = Some c \<and>
            d_description (tempReportData (handleUserMessage T text img s)) = Some text \<and>
            d_severity (tempReportData (handleUserMessage T text img s)) =
              Some (a_severity (analyzeReportDescription T text c)) \<and>
            d_aiAnalysis (tempReportData (handleUserMessage T text img s)) =
              Some (a_text (analyzeReportDescription T text c)) \<and>
            take (length (messages s)) (messages (handleUserMessage T text img s)) = messages s \<and>
            map (\<lambda>m. (m_sender m, m_text m, m_isQuickReply m, m_isLocationRequest m))
                (drop (length (messages s)) (messages (handleUserMessage T text img s))) =
              [(USER, text, False, False),
               (BOT, identified_prefix @ c @ ''.'', False, False),
               (BOT, a_text (analyzeReportDescription T text c), False, False),
               (BOT, location_prompt_inferred, False, True)] \<and>
            currentStep (handleUserMessage T text img s) = LOCATION_METHOD_SELECTION) \<and>
         (inferCategoryFromText T text = None \<longrightarrow>
            take (length (messages s)) (messages (handleUserMessage T text img s)) = messages s \<and>
            map (\<lambda>m. (m_sender m, m_text m, m_isQuickReply m, m_options m, m_isLocationRequest m))
                (drop (length (messages s)) (messages (handleUserMessage T text img s))) =
              [(USER, text, False, None, False),
               (BOT, not_identified_text, True, Some MAIN_CATEGORIES, False)] \<and>
            currentStep (handleUserMessage T text img s) = CATEGORY_SELECTION)"
proof (intro conjI impI)
  assume c: "inferCategoryFromText T text = Some c"
  then show "c \<in> set validCategories" by (rule inferCategoryFromText_Some)
  from c have t: "truthy (Some c)" by (rule inferCategoryFromText_truthy)
  note simps = handleUserMessage_def Let_def assms c t
  show "d_category (tempReportData (handleUserMessage T text img s)) = Some c"
    by (simp add: simps)
  show "d_description (tempReportData (handleUserMessage T text img s)) = Some text"
    by (simp add: simps)
  show "d_severity (tempReportData (handleUserMessage T text img s)) =
          Some (a_severity (analyzeReportDescription T text c))"
    by (simp add: simps)
  show "d_aiAnalysis (tempReportData (handleUserMessage T text img s)) =
          Some (a_text (analyzeReportDescription T text c))"
    by (simp add: simps)
  show "take (length (messages s)) (messages (handleUserMessage T text img s)) = messages s"
    by (simp add: simps)
  show "map (\<lambda>m. (m_sender m, m_text m, m_isQuickReply m, m_isLocationRequest m))
          (drop (length (messages s)) (messages (handleUserMessage T text img s))) =
        [(USER, text, False, False),
         (BOT, identified_prefix @ c @ ''.'', False, False),
         (BOT, a_text (analyzeReportDescription T text c), False, False),
         (BOT, location_prompt_inferred, False, True)]"
    by (simp add: simps)
  show "currentStep (handleUserMessage T text img s) = LOCATION_METHOD_SELECTION"
    by (simp add: simps)
next
  assume n: "inferCategoryFromText T text = None"
  note simps = handleUserMessage_def Let_def assms n truthy_def
  show "take (length (messages s)) (messages (handleUserMessage T text img s)) = messages s"
    by (simp add: simps)
  show "map (\<lambda>m. (m_sender m, m_text m, m_isQuickReply m, m_options m, m_isLocationRequest m))
          (drop (length (messages s)) (messages (handleUserMessage T text img s))) =
        [(USER, text, False, None, False),
         (BOT, not_identified_text, True, Some MAIN_CATEGORIES, False)]"
    by (simp add: simps)
  show "currentStep (handleUserMessage T text img s) = CATEGORY_SELECTION"
    by (simp add: simps)
qed

theorem free_text_category_witness:
  "currentStep greeted = CATEGORY_SELECTION \<and>
   inferCategoryFromText (classifying_transport ''Rachaduras e Estruturas'' 4) crack_text =
     Some ''Rachaduras e Estruturas'' \<and>
   currentStep (handleUserMessage (classifying_transport ''Rachaduras e Estruturas'' 4)
      crack_text None greeted) = LOCATION_METHOD_SELECTION \<and>
   d_description (tempReportData (handleUserMessage
      (classifying_transport ''Rachaduras e Estruturas'' 4) crack_text None greeted)) =
     Some crack_text \<and>
   inferCategoryFromText (classifying_transport ''null'' 4) crack_text = None \<and>
   currentStep (handleUserMessage (classifying_transport ''null'' 4) crack_text None greeted) =
     CATEGORY_SELECTION"
proof -
  have step: "currentStep greeted = CATEGORY_SELECTION"
    by code_simp
  have found: "inferCategoryFromText (classifying_transport ''Rachaduras e Estruturas'' 4)
      crack_text = Some ''Rachaduras e Estruturas''"
    by code_simp
  have missed: "inferCategoryFromText (classifying_transport ''null'' 4) crack_text = None"
    by code_simp
  show ?thesis
    using free_text_category [OF step, of "classifying_transport ''Rachaduras e Estruturas'' 4"
        crack_text "''Rachaduras e Estruturas''" None]
      free_text_category [OF step, of "classifying_transport ''null'' 4" crack_text
        "''Rachaduras e Estruturas''" None]
      step found missed
    by simp
qed

text \<open>
  C10. When free text submitted in CATEGORY_SELECTION or SUBCATEGORY_SELECTION is
  classified, the draft left by the handler holds the inferred category, the raw text as
  description and the severity and analysis text of the analysis that the handler runs,
  and nothing else: its sub-category and its image are unset, whatever the draft held
  before and whether or not the message carried an image. A report finalized from this
  draft has no sub-category and no image.
\<close>

theorem inferred_draft_replaced:
  assumes "currentStep s = CATEGORY_SELECTION \<or> currentStep s = SUBCATEGORY_SELECTION"
    and "inferCategoryFromText T text = Some c"
  shows "tempReportData (handleUserMessage T text img s) =
           \<lparr>d_category = Some c, d_subcategory = None, d_description = Some text,
            d_severity = Some (a_severity (analyzeReportDescription T text c)),
            d_aiAnalysis = Some (a_text (analyzeReportDescription T text c)),
            d_imageUrl = None\<rparr> \<and>
         r_subcategory (newReport (tempReportData (handleUserMessage T text img s))
            coords neighborhood now date) = None \<and>
         r_imageUrl (newReport (tempReportData (handleUserMessage T text img s))
            coords neighborhood now date) = None"
proof -
  from assms(2) have t: "truthy (Some c)" by (rule inferCategoryFromText_truthy)
  have d: "tempReportData (handleUserMessage T text img s) =
           \<lparr>d_category = Some c, d_subcategory = None, d_description = Some text,
            d_severity = Some (a_severity (analyzeReportDescription T text c)),
            d_aiAnalysis = Some (a_text (analyzeReportDescription T text c)),
            d_imageUrl = None\<rparr>"
    using assms(1) by (auto simp: handleUserMessage_def Let_def assms(2) t empty_draft_def)
  show ?thesis unfolding d by (simp add: newReport_def)
qed

theorem inferred_draft_replaced_witness:
  "(currentStep photo_kept = CATEGORY_SELECTION \<or> currentStep photo_kept = SUBCATEGORY_SELECTION) \<and>
   d_imageUrl (tempReportData photo_kept) = Some photo \<and>
   inferCategoryFromText (classifying_transport ''Rachaduras e Estruturas'' 4) crack_text =
     Some ''Rachaduras e Estruturas'' \<and>
   d_imageUrl (tempReportData (handleUserMessage
      (classifying_transport ''Rachaduras e Estruturas'' 4) crack_text (Some photo) photo_kept)) = None \<and>
   r_imageUrl (newReport (tempReportData (handleUserMessage
      (classifying_transport ''Rachaduras e Estruturas'' 4) crack_text (Some photo) photo_kept))
      \<lparr>lat = - 12.97, lng = - 38.50\<rparr> (Some map_label) 1762070431000 1762070431000) = None"
proof -
  have step: "currentStep photo_kept = CATEGORY_SELECTION \<or>
      currentStep photo_kept = SUBCATEGORY_SELECTION"
    by code_simp
  have kept: "d_imageUrl (tempReportData photo_kept) = Some photo"
    by code_simp
  have found: "inferCategoryFromText (classifying_transport ''Rachaduras e Estruturas'' 4)
      crack_text = Some ''Rachaduras e Estruturas''"
    by code_simp
  show ?thesis
    using inferred_draft_replaced [OF step found, of "Some photo"
        "\<lparr>lat = - 12.97, lng = - 38.50\<rparr>" "Some map_label" 1762070431000 1762070431000]
      step kept found
    by (simp add: newReport_def)
qed

subsection \<open>A failed GPS request\<close>



subsection \<open>Finalization\<close>

lemma Coordinates_eta [simp]: "\<lparr>lat = lat c, lng = lng c\<rparr> = (c :: Coordinates)"
  by (cases c) simp

text \<open>
  C4, as stated, fails on the code: the defaults are taken with \<open>||\<close>, which replaces
  every falsy value, not only an unset one. In the recorded session in which the analysis
  returns severity 0, the draft holds severity 0 when the map point is confirmed, and the
  report gets severity 1.
\<close>

theorem finalize_defaults_counterexample:
  "r_severity (last (reports (handleMapLocationSelect \<lparr>lat = - 12.97, lng = - 38.50\<rparr> (map_open 0)))) \<noteq>
     (case d_severity (tempReportData (map_open 0)) of None \<Rightarrow> 1 | Some v \<Rightarrow> v)"
  by code_simp

text \<open>
  C4, amended. At finalization, shared by the GPS, text and map paths, the report built
  from the draft (the draft of the state in which the event arrived) and the resolved
  coordinate is appended to the report collection, and: its category is the draft's
  category, or \<open>ReportCategory.OTHER\<close> when that is unset or empty; its severity is the
  draft's severity, or 1 when that is unset or 0; its analysis text is the draft's, or
  the fixed text \<open>no_analysis\<close> when that is unset or empty; its description is the draft's
  description, else (unset or empty) the sub-category, else (unset or empty) the fixed
  placeholder; its status is \<open>pending\<close>; its location and neighbourhood are the ones
  resolved.
\<close>

theorem finalize_defaults:
  "reports (finalizeReport draft coords neighborhood s) =
     reports s @ [newReport draft coords neighborhood (clock s (reads s)) (clock s (Suc (reads s)))] \<and>
   r_category (newReport draft coords neighborhood now date) =
     (case d_category draft of None \<Rightarrow> category_value OTHER
      | Some c \<Rightarrow> if c = [] then category_value OTHER else c) \<and>
   r_severity (newReport draft coords neighborhood now date) =
     (case d_severity draft of None \<Rightarrow> 1 | Some v \<Rightarrow> if v = 0 then 1 else v) \<and>
   r_aiAnalysis (newReport draft coords neighborhood now date) =
     (case d_aiAnalysis draft of None \<Rightarrow> no_analysis
      | Some a \<Rightarrow> if a = [] then no_analysis else a) \<and>
   r_description (newReport draft coords neighborhood now date) =
     (if truthy (d_description draft) then the (d_description draft)
      else if truthy (d_subcategory draft) then the (d_subcategory draft)
      else no_description) \<and>
   r_status (newReport draft coords neighborhood now date) = pending \<and>
   r_location (newReport draft coords neighborhood now date) = coords \<and>
   r_neighborhood (newReport draft coords neighborhood now date) = neighborhood \<and>
   reports (handleLocationRequest Method_gps (Position latitude longitude) s) =
     reports s @ [newReport (tempReportData s) \<lparr>lat = latitude, lng = longitude\<rparr> (Some gps_label)
                    (clock s (reads s + 2)) (clock s (reads s + 3))] \<and>
   reports (handleMapLocationSelect coords s) =
     reports s @ [newReport (tempReportData s) coords (Some map_label)
                    (clock s (reads s + 2)) (clock s (reads s + 3))] \<and>
   (currentStep s = LOCATION_INPUT_TEXT \<longrightarrow>
      reports (handleUserMessage T text img s) =
        reports s @ [newReport (tempReportData s) (l_coordinates (extractLocationFromText T text))
                       (Some (l_neighborhood (extractLocationFromText T text)))
                       (clock s (reads s + 4)) (clock s (reads s + 5))])"
proof (intro conjI impI)
  show "r_category (newReport draft coords neighborhood now date) =
     (case d_category draft of None \<Rightarrow> category_value OTHER
      | Some c \<Rightarrow> if c = [] then category_value OTHER else c)"
    by (simp add: newReport_def or_string_def split: option.splits)
  show "r_severity (newReport draft coords neighborhood now date) =
     (case d_severity draft of None \<Rightarrow> 1 | Some v \<Rightarrow> if v = 0 then 1 else v)"
    by (simp add: newReport_def or_severity_def split: option.splits)
  show "r_aiAnalysis (newReport draft coords neighborhood now date) =
     (case d_aiAnalysis draft of None \<Rightarrow> no_analysis
      | Some a \<Rightarrow> if a = [] then no_analysis else a)"
    by (simp add: newReport_def or_string_def split: option.splits)
  show "r_description (newReport draft coords neighborhood now date) =
     (if truthy (d_description draft) then the (d_description draft)
      else if truthy (d_subcategory draft) then the (d_subcategory draft)
      else no_description)"
    by (simp add: newReport_def or_string_def truthy_def split: option.splits)
  show "reports (handleLocationRequest Method_gps (Position latitude longitude) s) =
     reports s @ [newReport (tempReportData s) \<lparr>lat = latitude, lng = longitude\<rparr> (Some gps_label)
                    (clock s (reads s + 2)) (clock s (reads s + 3))]"
    by (simp add: handleLocationRequest_def eval_nat_numeral)
  show "reports (handleMapLocationSelect coords s) =
     reports s @ [newReport (tempReportData s) coords (Some map_label)
                    (clock s (reads s + 2)) (clock s (reads s + 3))]"
    by (simp add: handleMapLocationSelect_def eval_nat_numeral)
next
  assume "currentStep s = LOCATION_INPUT_TEXT"
  then show "reports (handleUserMessage T text img s) =
        reports s @ [newReport (tempReportData s) (l_coordinates (extractLocationFromText T text))
                       (Some (l_neighborhood (extractLocationFromText T text)))
                       (clock s (reads s + 4)) (clock s (reads s + 5))]"
    by (simp add: handleUserMessage_def Let_def eval_nat_numeral)
qed (simp_all add: newReport_def)

theorem finalize_defaults_witness:
  "currentStep typing_location = LOCATION_INPUT_TEXT \<and>
   map r_neighborhood (reports (handleUserMessage dead_transport ''Barra'' None typing_location)) =
     [Some ''Salvador (Centro)''] \<and>
   map r_severity (reports (handleUserMessage dead_transport ''Barra'' None typing_location)) = [4] \<and>
   map r_status (reports (handleUserMessage dead_transport ''Barra'' None typing_location)) = [pending]"
proof -
  have step: "currentStep typing_location = LOCATION_INPUT_TEXT"
    by code_simp
  have none: "reports typing_location = []"
    by code_simp
  have draft: "tempReportData typing_location =
      \<lparr>d_category = Some ''Alagamentos e Enchentes'', d_subcategory = Some ''Bueiro entupido'',
       d_description = Some ''[Bueiro entupido] - ok'', d_severity = Some 4,
       d_aiAnalysis = Some ''Registrado.'', d_imageUrl = None\<rparr>"
    by code_simp
  have loc: "l_neighborhood (extractLocationFromText dead_transport ''Barra'') = ''Salvador (Centro)''"
    by code_simp
  show ?thesis
    using finalize_defaults [of empty_draft "\<lparr>lat = 0, lng = 0\<rparr>" None typing_location 0 0 0 0
        dead_transport "''Barra''" None] step none draft loc
    by (simp add: newReport_def or_severity_def)
qed

subsection \<open>Reports and message ids over whole sessions\<close>

lemma newReport_category_nonempty: "r_category (newReport d c n t u) \<noteq> []"
  by (simp add: newReport_def or_string_def split: option.splits)

lemma handle_reports:
  "\<exists>rs. reports (handle T e s) = reports s @ rs \<and> (\<forall>r\<in>set rs. r_category r \<noteq> [])"
proof (cases e)
  case Mount
  then show ?thesis by (simp add: mount_def processBotResponse_def Let_def)
next
  case (SendMessage msg img)
  then show ?thesis
    by (simp add: handleUserMessage_def Let_def newReport_category_nonempty)
next
  case (QuickReply v)
  then show ?thesis
    by (simp add: handleQuickReply_def handlePostCompletionAction_def Let_def)
next
  case (LocationRequest m g)
  then show ?thesis
    by (cases m; cases g) (simp_all add: handleLocationRequest_def newReport_category_nonempty)
next
  case (MapLocationSelect c)
  then show ?thesis by (simp add: handleMapLocationSelect_def newReport_category_nonempty)
qed simp_all

text \<open>The category half of the report invariant holds in every session.\<close>

lemma run_reports:
  "\<forall>r\<in>set (reports s). r_category r \<noteq> [] \<Longrightarrow>
   \<forall>r\<in>set (reports (run es s)). r_category r \<noteq> []"
proof (induction es arbitrary: s)
  case Nil
  then show ?case by simp
next
  case (Cons a es)
  obtain T e where a: "a = (T, e)" by (cases a)
  obtain rs where rs: "reports (handle T e s) = reports s @ rs" "\<forall>r\<in>set rs. r_category r \<noteq> []"
    using handle_reports by blast
  have "\<forall>r\<in>set (reports (handle T e s)). r_category r \<noteq> []"
    using Cons.prems rs by auto
  then show ?case using Cons.IH a by simp
qed

text \<open>
  C2 fails on the code in its severity half. \<open>analyzeReportDescription\<close> returns what
  \<open>JSON.parse\<close> yields without checking the severity (the category returned by
  \<open>inferCategoryFromText\<close> is checked against the enumeration), and \<open>finalizeReport\<close>
  copies it. In the recorded session in which the transport answers the analysis request
  with severity 7, the gateway returns 7 and the report appended at finalization has
  severity 7, outside the range 1 to 5 that the declaration of \<open>Report.severity\<close>
  documents.
\<close>

theorem severity_unchecked:
  "a_severity (analyzeReportDescription (scripted_transport 7)
      ''[Bueiro entupido] - ok'' ''Alagamentos e Enchentes'') = 7 \<and>
   map r_severity (reports (run (marked_on_map 7) (initial wall_clock))) = [7]"
  by code_simp

lemma finalizeReport_timer_ids:
  "clock s (reads s + 2) = clock s (reads s) \<Longrightarrow>
   map m_id (drop (length (messages s)) (messages (finalizeReport_timer s))) =
     [toString (clock s (reads s)), toString (clock s (reads s))]"
  by (simp add: finalizeReport_timer_def eval_nat_numeral)

text \<open>
  C9 fails on the code. A message id is \<open>Date.now().toString()\<close>, so two messages
  appended within one millisecond get the same id. The timer callback of
  \<open>finalizeReport\<close> appends its two bot messages back to back: in the recorded session
  the transcript has 13 messages, and the last two, which differ in their text, have the
  same id.
\<close>

theorem message_ids_collide:
  "length (messages (run (marked_on_map 4) (initial wall_clock))) = 13 \<and>
   m_id (messages (run (marked_on_map 4) (initial wall_clock)) ! 11) =
     m_id (messages (run (marked_on_map 4) (initial wall_clock)) ! 12) \<and>
   m_text (messages (run (marked_on_map 4) (initial wall_clock)) ! 11) \<noteq>
     m_text (messages (run (marked_on_map 4) (initial wall_clock)) ! 12)"
  by code_simp

section \<open>The aggregator\<close>

subsection \<open>Printing and reading decimals\<close>




lemma digits_value_Nil [simp]: "digits_value [] = 0"
  by (simp add: digits_value_def)







subsection \<open>Rounding to a double\<close>

lemma pow2_powi: "pow2 e = 2 powi e"
  by (simp add: pow2_def power_int_def inverse_eq_divide power_one_over)

lemma pow2_pos [simp]: "0 < pow2 e"
  by (simp add: pow2_powi)












subsection \<open>The nearest tenth of a quotient\<close>






subsection \<open>Severity buckets\<close>





subsection \<open>KPIs\<close>




subsection \<open>Risk by neighbourhood\<close>

lemma set_first_seen [simp]: "set (first_seen xs) = set xs"
  by (induction xs) auto


















end
